theory Spec2Isabelle
  imports Main "HOL-Library.Sublist"
begin

section \<open>JavaScript values\<close>

text \<open>
  The values the modelled functions receive. \<open>JNum\<close> holds the integral numbers
  (durations in seconds, attempt counters), \<open>JNaN\<close> the not-a-number value,
  \<open>JStr\<close> a primitive string, \<open>JStrObj\<close> a \<^verbatim>\<open>new String(s)\<close> wrapper object and
  \<open>JObj\<close> a plain object given by its own properties.
\<close>

datatype js_value =
    JUndefined
  | JNull
  | JBool bool
  | JNum int
  | JNaN
  | JStr string
  | JStrObj string
  | JObj "(string \<times> js_value) list"

text \<open>Truthiness, as \<^verbatim>\<open>if (v)\<close>, \<^verbatim>\<open>!v\<close> and \<^verbatim>\<open>v ? a : b\<close> read a value.\<close>

fun js_truthy :: "js_value \<Rightarrow> bool" where
  "js_truthy JUndefined = False"
| "js_truthy JNull = False"
| "js_truthy (JBool b) = b"
| "js_truthy (JNum n) = (n \<noteq> 0)"
| "js_truthy JNaN = False"
| "js_truthy (JStr s) = (s \<noteq> [])"
| "js_truthy (JStrObj s) = True"
| "js_truthy (JObj fs) = True"

text \<open>An exception object: its constructor and its \<^verbatim>\<open>message\<close>.\<close>

datatype js_error =
    JsError string
  | JsTypeError string
  | JsReferenceError string

fun message :: "js_error \<Rightarrow> string" where
  "message (JsError m) = m"
| "message (JsTypeError m) = m"
| "message (JsReferenceError m) = m"

section \<open>Effects: a trace of calls, and exceptions\<close>

text \<open>
  A computation yields the calls it made to the outside, in order, and either the
  exception it threw (\<open>Inl\<close>) or its value (\<open>Inr\<close>).
\<close>

type_synonym ('e, 'a) io = "'e list \<times> (js_error + 'a)"

definition skip :: "('e, unit) io" where
  "skip = ([], Inr ())"

definition throw :: "js_error \<Rightarrow> ('e, 'a) io" where
  "throw e = ([], Inl e)"

definition effect :: "'e \<Rightarrow> ('e, unit) io" where
  "effect ev = ([ev], Inr ())"

text \<open>A call to a collaborator that may fail: \<open>None\<close> when it returns (its promise
  resolves), \<open>Some e\<close> when it throws (rejects with) \<open>e\<close>.\<close>

definition call :: "'e \<Rightarrow> js_error option \<Rightarrow> ('e, unit) io" where
  "call ev r = ([ev], case r of None \<Rightarrow> Inr () | Some e \<Rightarrow> Inl e)"

definition seq :: "('e, unit) io \<Rightarrow> ('e, 'a) io \<Rightarrow> ('e, 'a) io" where
  "seq m k = (case m of
                (es, Inl e) \<Rightarrow> (es, Inl e)
              | (es, Inr u) \<Rightarrow> (es @ fst k, snd k))"

definition try_catch :: "('e, 'a) io \<Rightarrow> (js_error \<Rightarrow> ('e, 'a) io) \<Rightarrow> ('e, 'a) io" where
  "try_catch m h = (case m of
                      (es, Inl e) \<Rightarrow> (es @ fst (h e), snd (h e))
                    | (es, Inr x) \<Rightarrow> (es, Inr x))"

section \<open>The user settings: the security token\<close>

text \<open>
  Modelled from the spec: the configuration store (\<^verbatim>\<open>require('./config')\<close>) is a key-value
  collaborator: \<^verbatim>\<open>read(key) -> value | undefined\<close> and \<^verbatim>\<open>write(key, value)\<close>.
\<close>

type_synonym config = "string \<rightharpoonup> js_value"

definition Config_read :: "config \<Rightarrow> string \<Rightarrow> js_value" where
  "Config_read cfg key = (case cfg key of None \<Rightarrow> JUndefined | Some v \<Rightarrow> v)"

definition Config_write :: "config \<Rightarrow> string \<Rightarrow> js_value \<Rightarrow> config" where
  "Config_write cfg key v = cfg(key \<mapsto> v)"

text \<open>The errors of the token functions, one constructor for each \<^verbatim>\<open>throw\<close>;
  \<open>PropertyOfNull\<close> is the TypeError of a property read on \<^verbatim>\<open>null\<close> or \<^verbatim>\<open>undefined\<close>.\<close>

datatype token_error =
    TokenEmpty
  | TokenColorEmpty
  | TokenCodeEmpty
  | TokenTextColorEmpty
  | TokenColorInvalid js_value
  | TokenTextColorInvalid js_value
  | TokenNotSet
  | PropertyOfNull

text \<open>\<^verbatim>\<open>token.key\<close>, for the keys read here (none of them is a property of a primitive's
  prototype, so a primitive yields \<^verbatim>\<open>undefined\<close>).\<close>

fun get_prop :: "js_value \<Rightarrow> string \<Rightarrow> token_error + js_value" where
  "get_prop JUndefined key = Inl PropertyOfNull"
| "get_prop JNull key = Inl PropertyOfNull"
| "get_prop (JObj fs) key = Inr (case map_of fs key of None \<Rightarrow> JUndefined | Some v \<Rightarrow> v)"
| "get_prop v key = Inr JUndefined"

text \<open>\<^verbatim>\<open>Settings.prototype.__validateToken\<close>; \<open>isHexColor\<close> is the vendored validator's
  predicate, a parameter here.\<close>

definition validateToken :: "(js_value \<Rightarrow> bool) \<Rightarrow> js_value \<Rightarrow> token_error + bool" where
  "validateToken isHexColor token =
    (if token = JUndefined then Inl TokenEmpty
     else case get_prop token ''color'' of
       Inl e \<Rightarrow> Inl e
     | Inr color \<Rightarrow>
       if color = JUndefined then Inl TokenColorEmpty
       else case get_prop token ''code'' of
         Inl e \<Rightarrow> Inl e
       | Inr code \<Rightarrow>
         if code = JUndefined then Inl TokenCodeEmpty
         else case get_prop token ''textcolor'' of
           Inl e \<Rightarrow> Inl e
         | Inr textcolor \<Rightarrow>
           if textcolor = JUndefined then Inl TokenTextColorEmpty
           else if \<not> isHexColor color then Inl (TokenColorInvalid color)
           else if \<not> isHexColor textcolor then Inl (TokenTextColorInvalid textcolor)
           else Inr True)"

text \<open>\<^verbatim>\<open>Settings.prototype.getSecurityToken\<close>: the token object it builds, or the throw.\<close>

definition getSecurityToken :: "config \<Rightarrow> token_error + js_value" where
  "getSecurityToken cfg =
    (let code = Config_read cfg ''securityToken.code'';
         color = Config_read cfg ''securityToken.color'';
         textcolor = Config_read cfg ''securityToken.textColor''
     in if code = JUndefined \<or> color = JUndefined \<or> textcolor = JUndefined
        then Inl TokenNotSet
        else Inr (JObj [(''code'', code), (''color'', color), (''textcolor'', textcolor)]))"

text \<open>\<^verbatim>\<open>Settings.prototype.setSecurityToken\<close>: the store after the call, and the throw or
  the returned value.\<close>

definition setSecurityToken ::
  "(js_value \<Rightarrow> bool) \<Rightarrow> config \<Rightarrow> js_value \<Rightarrow> config \<times> (token_error + bool)" where
  "setSecurityToken isHexColor cfg token =
    (case validateToken isHexColor token of
       Inl e \<Rightarrow> (cfg, Inl e)
     | Inr ok \<Rightarrow>
       (case get_prop token ''code'' of
          Inl e \<Rightarrow> (cfg, Inl e)
        | Inr code \<Rightarrow>
          let cfg1 = Config_write cfg ''securityToken.code'' code in
          (case get_prop token ''color'' of
             Inl e \<Rightarrow> (cfg1, Inl e)
           | Inr color \<Rightarrow>
             let cfg2 = Config_write cfg1 ''securityToken.color'' color in
             (case get_prop token ''textcolor'' of
                Inl e \<Rightarrow> (cfg2, Inl e)
              | Inr textcolor \<Rightarrow>
                (Config_write cfg2 ''securityToken.textColor'' textcolor, Inr True)))))"

text \<open>The claim's words: a field is missing when reading it gives no defined value.\<close>

definition field_missing :: "js_value \<Rightarrow> string \<Rightarrow> bool" where
  "field_missing token key =
    (case get_prop token key of Inl e \<Rightarrow> True | Inr v \<Rightarrow> v = JUndefined)"

definition field :: "js_value \<Rightarrow> string \<Rightarrow> js_value" where
  "field token key = (case get_prop token key of Inl e \<Rightarrow> JUndefined | Inr v \<Rightarrow> v)"

definition token_rejected :: "(js_value \<Rightarrow> bool) \<Rightarrow> js_value \<Rightarrow> bool" where
  "token_rejected isHexColor token =
    (token = JUndefined \<or> field_missing token ''color'' \<or> field_missing token ''code''
     \<or> field_missing token ''textcolor''
     \<or> \<not> isHexColor (field token ''color'') \<or> \<not> isHexColor (field token ''textcolor''))"

section \<open>The master password dialog\<close>

datatype ui_event =
    RemoveClass string string
  | AddClass string string
  | Focus string
  | SetHtml string string
  | LoadTemplate string string
  | Request string "js_value list"
  | SelfPortEmit string "js_value list"

text \<open>\<open>masterCompleteHandler\<close>: the handler of
  \<^verbatim>\<open>passbolt.keyring.master.request.complete\<close>.\<close>

definition masterCompleteHandler :: "string \<Rightarrow> string \<Rightarrow> int \<Rightarrow> ui_event list" where
  \<open>masterCompleteHandler token status attempts =
    (if status = ''ERROR'' then
       [RemoveClass ''#master-password-submit'' ''processing'', Focus ''#js_master_password'']
       @ (if attempts < 3 then
            [SetHtml ''label[for="js_master_password"]'' ''Please enter a valid passphrase.'',
             AddClass ''label[for="js_master_password"]'' ''error'']
          else
            [LoadTemplate ''.js_dialog_content'' ''./tpl/master/master-password-failure.ejs''])
     else [])\<close>

text \<open>
  \<open>rememberMasterPassword\<close>. Its body reads the identifier \<^verbatim>\<open>masterPassword\<close>, which is
  neither its parameter nor a variable of the enclosing function of the file (the two
  \<^verbatim>\<open>var masterPassword\<close> are local to \<open>submitButtonClicked\<close> and to
  \<open>masterPasswordFieldKeypressed\<close>); \<open>scope\<close> is what the identifier resolves to in the
  global object, \<open>None\<close> when nothing binds it, and the read then throws before the
  request is made.
\<close>

definition rememberMasterPassword :: "(string \<rightharpoonup> js_value) \<Rightarrow> js_value \<Rightarrow> (ui_event, unit) io" where
  "rememberMasterPassword scope time =
    (let time' = (if js_truthy time then time else JNum 300) in
     case scope ''masterPassword'' of
       None \<Rightarrow> throw (JsReferenceError ''masterPassword is not defined'')
     | Some masterPassword \<Rightarrow>
         effect (Request ''passbolt.user.rememberMasterPassword'' [masterPassword, time']))"

text \<open>\<open>submitMasterPassword\<close>; \<open>context_token\<close> is \<^verbatim>\<open>passbolt.context.token\<close>.\<close>

definition submitMasterPassword :: "js_value \<Rightarrow> string \<Rightarrow> (ui_event, unit) io" where
  "submitMasterPassword context_token masterPassword =
    seq (effect (AddClass ''#master-password-submit'' ''processing''))
        (effect (SelfPortEmit ''passbolt.keyring.master.request.submit''
                   [context_token, JStr masterPassword]))"

text \<open>\<open>submitButtonClicked\<close>; \<open>field_value\<close> is the value of the passphrase field and
  \<open>remember_checked\<close> the state of the checkbox \<^verbatim>\<open>#js_remember_master_password\<close>.\<close>

definition submitButtonClicked ::
  "(string \<rightharpoonup> js_value) \<Rightarrow> js_value \<Rightarrow> string \<Rightarrow> bool \<Rightarrow> (ui_event, unit) io" where
  "submitButtonClicked scope context_token field_value remember_checked =
    (let masterPassword = field_value in
     seq (if remember_checked then rememberMasterPassword scope JUndefined else skip)
         (submitMasterPassword context_token masterPassword))"

section \<open>The authentication controller\<close>

text \<open>The worker at the origin of a request: the name of its pageMod
  (\<^verbatim>\<open>worker.pageMod.args.name\<close>; \<open>None\<close> for a worker without pageMod) and the id of its tab.\<close>

record Worker =
  pageMod :: "string option"
  tab :: nat

text \<open>The controller object: \<open>tabId\<close> is \<^verbatim>\<open>this._tabId\<close>, undefined until the
  before-login hook sets it.\<close>

record AuthController =
  worker :: Worker
  requestId :: string
  tabId :: "nat option"

text \<open>
  The collaborators of one \<open>login\<close>. A fallible one is given by its outcome there
  (\<open>None\<close>: it returns; \<open>Some e\<close>: it throws \<open>e\<close>). \<open>Worker_get\<close> is the registry lookup
  \<^verbatim>\<open>Worker.get(name, tabId)\<close> by the moment of the call: \<open>False\<close> in the before-login
  hook, \<open>True\<close> in the handlers that route the outcome. \<open>URL_href\<close> is the platform's
  \<^verbatim>\<open>new URL(s).href\<close>, \<open>l10n\<close> the translation function \<^verbatim>\<open>__\<close>.
\<close>

record env =
  l10n :: "string \<Rightarrow> string"
  retrieveAndStoreCsrfToken :: "js_error option"
  auth_login :: "string \<Rightarrow> js_error option"
  isLoggedIn :: "js_error option"
  settings_sync :: "js_error option"
  PassboltApp_init :: "js_error option"
  Worker_get :: "bool \<Rightarrow> string \<Rightarrow> nat option \<Rightarrow> js_error option"
  trustedDomain :: "string option"
  URL_href :: "string \<Rightarrow> js_error + string"
  getEmitableError :: "js_error \<Rightarrow> js_value"

text \<open>The calls a login makes, as the trace records them.\<close>

datatype event =
    CsrfFetch
  | AuthLogin string
  | MfaCheck
  | SettingsSync
  | ConsoleError string
  | SetDefaults
  | StoreMasterPassword string js_value
  | AppInit
  | WorkerEmit string "nat option" string "js_value list"
  | PortEmit string "js_value list"

definition isAuthForm :: "Worker \<Rightarrow> bool" where
  "isAuthForm w = (pageMod w = Some ''AuthForm'')"

text \<open>\<^verbatim>\<open>Worker.get(name, tabId).port.emit(channel, ...args)\<close>.\<close>

definition worker_emit ::
  "env \<Rightarrow> bool \<Rightarrow> string \<Rightarrow> nat option \<Rightarrow> string \<Rightarrow> js_value list \<Rightarrow> (event, unit) io" where
  "worker_emit e late name t channel args =
    (case Worker_get e late name t of
       Some err \<Rightarrow> throw err
     | None \<Rightarrow> effect (WorkerEmit name t channel args))"

text \<open>\<^verbatim>\<open>_beforeLogin\<close>: the controller after it (the tab id is recorded before the lookup
  that may throw), and its effects.\<close>

definition beforeLogin :: "env \<Rightarrow> AuthController \<Rightarrow> AuthController \<times> (event, unit) io" where
  "beforeLogin e c =
    (if isAuthForm (worker c) then
       (let c' = c\<lparr>tabId := Some (tab (worker c))\<rparr> in
        (c', worker_emit e False ''Auth'' (tabId c') ''passbolt.auth.login-processing''
               [JStr (l10n e ''Logging in'')]))
     else (c, skip))"

text \<open>\<^verbatim>\<open>_checkMfaAuthentication\<close>.\<close>

definition checkMfaAuthentication :: "env \<Rightarrow> AuthController \<Rightarrow> (event, unit) io" where
  "checkMfaAuthentication e c =
    (if pageMod (worker c) = None then call MfaCheck (isLoggedIn e) else skip)"

text \<open>\<^verbatim>\<open>_syncUserSettings\<close>.\<close>

definition syncUserSettings :: "env \<Rightarrow> (event, unit) io" where
  "syncUserSettings e =
    try_catch (call SettingsSync (settings_sync e))
      (\<lambda>error. seq (effect (ConsoleError ''User settings sync failed''))
                 (seq (effect (ConsoleError (message error)))
                      (effect SetDefaults)))"

text \<open>The test of \<^verbatim>\<open>_handleLoginSuccess\<close> on its argument:
  \<^verbatim>\<open>!redirect || !(typeof redirect === 'string' || redirect instanceof String) || redirect.charAt(0) !== '/'\<close>.\<close>

fun is_string :: "js_value \<Rightarrow> bool" where
  "is_string (JStr s) = True"
| "is_string (JStrObj s) = True"
| "is_string v = False"

fun string_of :: "js_value \<Rightarrow> string" where
  "string_of (JStr s) = s"
| "string_of (JStrObj s) = s"
| "string_of v = []"

definition charAt0 :: "string \<Rightarrow> string" where
  "charAt0 s = take 1 s"

definition redirect_replaced :: "js_value \<Rightarrow> bool" where
  "redirect_replaced redirect =
    (\<not> js_truthy redirect \<or> \<not> is_string redirect \<or> charAt0 (string_of redirect) \<noteq> ''/'')"

text \<open>The string a configuration value is used as: \<^verbatim>\<open>undefined\<close> when the key is not set.\<close>

definition domain_string :: "string option \<Rightarrow> string" where
  "domain_string d = (case d of None \<Rightarrow> ''undefined'' | Some s \<Rightarrow> s)"

text \<open>\<^verbatim>\<open>_handleLoginSuccess\<close>.\<close>

definition handleLoginSuccess :: "env \<Rightarrow> AuthController \<Rightarrow> js_value \<Rightarrow> (event, unit) io" where
  "handleLoginSuccess e c redirect =
    seq (call AppInit (PassboltApp_init e))
      (if isAuthForm (worker c) then
         (let d = domain_string (trustedDomain e) in
          case URL_href e (if redirect_replaced redirect then d else d @ string_of redirect) of
            Inl err \<Rightarrow> throw err
          | Inr href \<Rightarrow>
              worker_emit e True ''Auth'' (tabId c) ''passbolt.auth.login-success''
                [JStr (l10n e ''You are now logged in!''), JStr href])
       else effect (PortEmit (requestId c) [JStr ''SUCCESS'']))"

text \<open>\<^verbatim>\<open>_handleLoginError\<close>.\<close>

definition handleLoginError :: "env \<Rightarrow> AuthController \<Rightarrow> js_error \<Rightarrow> (event, unit) io" where
  "handleLoginError e c error =
    (if isAuthForm (worker c) then
       worker_emit e True ''Auth'' (tabId c) ''passbolt.auth.login-failed'' [JStr (message error)]
     else effect (PortEmit (requestId c) [JStr ''ERROR'', getEmitableError e error]))"

text \<open>
  The body of the \<^verbatim>\<open>try\<close> of \<open>login\<close> up to the call of the success handler, on the
  controller the before-login hook leaves.
\<close>

definition login_steps ::
  "env \<Rightarrow> AuthController \<Rightarrow> string \<Rightarrow> js_value \<Rightarrow> (event, unit) io" where
  "login_steps e c passphrase remember =
    seq (snd (beforeLogin e c))
      (seq (call CsrfFetch (retrieveAndStoreCsrfToken e))
        (seq (call (AuthLogin passphrase) (auth_login e passphrase))
          (seq (checkMfaAuthentication e (fst (beforeLogin e c)))
            (seq (syncUserSettings e)
              (if js_truthy remember then effect (StoreMasterPassword passphrase remember)
               else skip)))))"

text \<open>
  One run of \<open>login\<close>: the trace, the rejection of the promise \<open>login\<close> returns, and the
  rejection of the promise of \<^verbatim>\<open>_handleLoginSuccess\<close>, which \<open>login\<close> starts and does not
  await (so its failure is not caught by the \<^verbatim>\<open>catch\<close> of \<open>login\<close>).
\<close>

record run =
  events :: "event list"
  login_rejected :: "js_error option"
  success_handler_rejected :: "js_error option"

definition rejection :: "js_error + unit \<Rightarrow> js_error option" where
  "rejection r = (case r of Inl err \<Rightarrow> Some err | Inr u \<Rightarrow> None)"

definition login :: "env \<Rightarrow> AuthController \<Rightarrow> string \<Rightarrow> js_value \<Rightarrow> js_value \<Rightarrow> run" where
  "login e c passphrase remember redirect =
    (let c' = fst (beforeLogin e c) in
     case login_steps e c passphrase remember of
       (es, Inr u) \<Rightarrow>
         (let h = handleLoginSuccess e c' redirect in
          \<lparr>events = es @ fst h, login_rejected = None,
           success_handler_rejected = rejection (snd h)\<rparr>)
     | (es, Inl error) \<Rightarrow>
         (let h = handleLoginError e c' error in
          \<lparr>events = es @ fst h, login_rejected = rejection (snd h),
           success_handler_rejected = None\<rparr>))"

section \<open>Reading a run\<close>

text \<open>The effects and the outcome of the before-login hook within \<open>login\<close>.\<close>

definition hook_events :: "env \<Rightarrow> AuthController \<Rightarrow> event list" where
  "hook_events e c = fst (snd (beforeLogin e c))"

definition hook_result :: "env \<Rightarrow> AuthController \<Rightarrow> js_error option" where
  "hook_result e c = rejection (snd (snd (beforeLogin e c)))"

text \<open>The calls of the later steps when they are reached and return.\<close>

definition mfa_events :: "AuthController \<Rightarrow> event list" where
  "mfa_events c = (if pageMod (worker c) = None then [MfaCheck] else [])"

definition sync_events :: "env \<Rightarrow> event list" where
  "sync_events e = fst (syncUserSettings e)"

definition store_events :: "string \<Rightarrow> js_value \<Rightarrow> event list" where
  "store_events passphrase remember =
     (if js_truthy remember then [StoreMasterPassword passphrase remember] else [])"

text \<open>The four login steps among the events of a trace.\<close>

fun is_step :: "event \<Rightarrow> bool" where
  "is_step CsrfFetch = True"
| "is_step (AuthLogin p) = True"
| "is_step MfaCheck = True"
| "is_step SettingsSync = True"
| "is_step ev = False"

text \<open>The messages a run sends to workers, and those among them that report a failure.\<close>

fun is_message :: "event \<Rightarrow> bool" where
  "is_message (WorkerEmit name t channel args) = True"
| "is_message (PortEmit channel args) = True"
| "is_message ev = False"


fun is_store :: "event \<Rightarrow> bool" where
  "is_store (StoreMasterPassword p d) = True"
| "is_store ev = False"

text \<open>The spec's words for the redirect that is kept: a string (primitive or wrapped)
  whose first character is the slash.\<close>

fun redirect_rooted :: "js_value \<Rightarrow> bool" where
  "redirect_rooted (JStr s) = (case s of [] \<Rightarrow> False | ch # rest \<Rightarrow> ch = CHR ''/'')"
| "redirect_rooted (JStrObj s) = (case s of [] \<Rightarrow> False | ch # rest \<Rightarrow> ch = CHR ''/'')"
| "redirect_rooted v = False"

section \<open>Runs of the login, and example inputs\<close>

text \<open>The run that made the calls \<open>es\<close> and then handed the error \<open>err\<close> to the failure
  handler, as the \<^verbatim>\<open>catch\<close> of \<open>login\<close> does.\<close>

definition failure_run :: "env \<Rightarrow> AuthController \<Rightarrow> event list \<Rightarrow> js_error \<Rightarrow> run" where
  "failure_run e c es err =
     (let h = handleLoginError e (fst (beforeLogin e c)) err in
      \<lparr>events = es @ fst h, login_rejected = rejection (snd h),
       success_handler_rejected = None\<rparr>)"

text \<open>The run that made the calls \<open>es\<close> and then started the success handler.\<close>

definition success_run :: "env \<Rightarrow> AuthController \<Rightarrow> event list \<Rightarrow> js_value \<Rightarrow> run" where
  "success_run e c es redirect =
     (let h = handleLoginSuccess e (fst (beforeLogin e c)) redirect in
      \<lparr>events = es @ fst h, login_rejected = None,
       success_handler_rejected = rejection (snd h)\<rparr>)"

text \<open>
  The spec's words for the result routing: the message that reports \<open>result\<close> (an error,
  or the redirect URL of a success), by the identity of the originating worker.
\<close>

definition routed_outcome :: "env \<Rightarrow> AuthController \<Rightarrow> js_error + string \<Rightarrow> event" where
  "routed_outcome e c result =
     (if isAuthForm (worker c) then
        (case result of
           Inr href \<Rightarrow> WorkerEmit ''Auth'' (Some (tab (worker c))) ''passbolt.auth.login-success''
                         [JStr (l10n e ''You are now logged in!''), JStr href]
         | Inl err \<Rightarrow> WorkerEmit ''Auth'' (Some (tab (worker c))) ''passbolt.auth.login-failed''
                        [JStr (message err)])
      else
        (case result of
           Inr href \<Rightarrow> PortEmit (requestId c) [JStr ''SUCCESS'']
         | Inl err \<Rightarrow> PortEmit (requestId c) [JStr ''ERROR'', getEmitableError e err]))"

text \<open>The spec's words for the string the redirect URL is parsed from.\<close>

definition redirect_target :: "env \<Rightarrow> js_value \<Rightarrow> string" where
  "redirect_target e redirect =
     (if redirect_rooted redirect then domain_string (trustedDomain e) @ string_of redirect
      else domain_string (trustedDomain e))"

text \<open>
  Inputs for the concrete runs below: collaborators that all succeed when the passphrase
  is \<open>secret\<close>, an Auth worker on tab 7, and a stand-in for the URL parser that knows the
  two URLs of the example (the href of a bare origin ends with a slash).
\<close>

definition example_env :: env where
  "example_env =
     \<lparr>l10n = (\<lambda>s. s),
      retrieveAndStoreCsrfToken = None,
      auth_login = (\<lambda>p. if p = ''secret'' then None else Some (JsError ''wrong passphrase'')),
      isLoggedIn = None,
      settings_sync = None,
      PassboltApp_init = None,
      Worker_get = (\<lambda>late name t. if name = ''Auth'' \<and> t = Some 7 then None
                                   else Some (JsError ''Could not find worker'')),
      trustedDomain = Some ''https://example.org'',
      URL_href = (\<lambda>s. if s = ''https://example.org'' then Inr ''https://example.org/''
                        else if s = ''https://example.org/foo'' then Inr ''https://example.org/foo''
                        else Inl (JsTypeError ''Invalid URL'')),
      getEmitableError = (\<lambda>err. JObj [(''message'', JStr (message err))])\<rparr>"

text \<open>Controllers for a request of the quick access worker, of the login form and of a
  worker with another pageMod.\<close>

definition quickaccess_controller :: AuthController where
  "quickaccess_controller =
     \<lparr>worker = \<lparr>pageMod = None, tab = 3\<rparr>, requestId = ''req-1'', tabId = None\<rparr>"

definition authform_controller :: AuthController where
  "authform_controller =
     \<lparr>worker = \<lparr>pageMod = Some ''AuthForm'', tab = 7\<rparr>, requestId = ''req-2'', tabId = None\<rparr>"

definition app_controller :: AuthController where
  "app_controller =
     \<lparr>worker = \<lparr>pageMod = Some ''PassboltApp'', tab = 5\<rparr>, requestId = ''req-3'', tabId = None\<rparr>"

section \<open>The security token: validation and the store\<close>

lemma get_prop_field:
  "\<not> field_missing token key \<Longrightarrow> get_prop token key = Inr (field token key)"
  by (simp add: field_missing_def field_def split: sum.splits)

lemma validateToken_accepts:
  "validateToken isHexColor token = Inr b \<longleftrightarrow> (b \<and> \<not> token_rejected isHexColor token)"
  by (auto simp add: validateToken_def token_rejected_def field_missing_def field_def
      split: sum.splits)

lemma validateToken_rejects:
  "token_rejected isHexColor token \<Longrightarrow> \<exists>err. validateToken isHexColor token = Inl err"
  using validateToken_accepts [of isHexColor token]
  by (cases "validateToken isHexColor token") auto

lemma setSecurityToken_rejected:
  assumes "token_rejected isHexColor token"
  shows "\<exists>err. setSecurityToken isHexColor cfg token = (cfg, Inl err)"
proof -
  obtain err where "validateToken isHexColor token = Inl err"
    using assms validateToken_rejects by blast
  then show ?thesis by (simp add: setSecurityToken_def)
qed

lemma setSecurityToken_accepted:
  assumes "\<not> token_rejected isHexColor token"
  shows "setSecurityToken isHexColor cfg token =
    (cfg(''securityToken.code'' \<mapsto> field token ''code'',
         ''securityToken.color'' \<mapsto> field token ''color'',
         ''securityToken.textColor'' \<mapsto> field token ''textcolor''), Inr True)"
proof -
  have v: "validateToken isHexColor token = Inr True"
    using assms by (simp add: validateToken_accepts)
  from assms have "get_prop token ''code'' = Inr (field token ''code'')"
    and "get_prop token ''color'' = Inr (field token ''color'')"
    and "get_prop token ''textcolor'' = Inr (field token ''textcolor'')"
    by (simp_all add: token_rejected_def get_prop_field)
  with v show ?thesis
    by (simp add: setSecurityToken_def Config_write_def)
qed

text \<open>
  Claim C9. For every token argument, \<open>setSecurityToken\<close> throws and leaves the config
  store as it was when the token is undefined, when one of its fields color, code and
  textcolor is missing (reading it gives no defined value), or when color or textcolor
  is not a hex color for the validator; otherwise it writes the three fields under
  their keys and returns true.
\<close>

theorem setSecurityToken_spec:
  "if token_rejected isHexColor token
   then \<exists>err. setSecurityToken isHexColor cfg token = (cfg, Inl err)
   else setSecurityToken isHexColor cfg token =
          (cfg(''securityToken.code'' \<mapsto> field token ''code'',
               ''securityToken.color'' \<mapsto> field token ''color'',
               ''securityToken.textColor'' \<mapsto> field token ''textcolor''), Inr True)"
  using setSecurityToken_rejected [of isHexColor token cfg]
    setSecurityToken_accepted [of isHexColor token cfg]
  by (cases "token_rejected isHexColor token") simp_all

theorem setSecurityToken_spec_witness:
  "setSecurityToken (\<lambda>v. v = JStr ''#ff0000'' \<or> v = JStr ''#ffffff'') Map.empty
     (JObj [(''code'', JStr ''ABC''), (''color'', JStr ''#ff0000''), (''textcolor'', JStr ''#ffffff'')])
   = (Map.empty(''securityToken.code'' \<mapsto> JStr ''ABC'',
                ''securityToken.color'' \<mapsto> JStr ''#ff0000'',
                ''securityToken.textColor'' \<mapsto> JStr ''#ffffff''), Inr True)
   \<and> (\<exists>err. setSecurityToken (\<lambda>v. v = JStr ''#ff0000'' \<or> v = JStr ''#ffffff'') Map.empty
          (JObj [(''code'', JStr ''ABC''), (''color'', JStr ''red''), (''textcolor'', JStr ''#ffffff'')])
        = (Map.empty, Inl err))"
  using setSecurityToken_spec [of "\<lambda>v. v = JStr ''#ff0000'' \<or> v = JStr ''#ffffff''"
      "JObj [(''code'', JStr ''ABC''), (''color'', JStr ''#ff0000''), (''textcolor'', JStr ''#ffffff'')]"
      Map.empty]
    setSecurityToken_spec [of "\<lambda>v. v = JStr ''#ff0000'' \<or> v = JStr ''#ffffff''"
      "JObj [(''code'', JStr ''ABC''), (''color'', JStr ''red''), (''textcolor'', JStr ''#ffffff'')]"
      Map.empty]
  by (simp add: token_rejected_def field_missing_def field_def)

text \<open>
  Claim C10. When \<open>setSecurityToken\<close> accepts a token, \<open>getSecurityToken\<close> on the store it
  leaves does not throw and returns a token with the same code, color and textcolor.
\<close>

theorem set_then_getSecurityToken:
  assumes "setSecurityToken isHexColor cfg token = (cfg', Inr b)"
  shows "\<exists>t. getSecurityToken cfg' = Inr t
           \<and> get_prop t ''code'' = get_prop token ''code''
           \<and> get_prop t ''color'' = get_prop token ''color''
           \<and> get_prop t ''textcolor'' = get_prop token ''textcolor''"
proof -
  have acc: "\<not> token_rejected isHexColor token"
    using assms setSecurityToken_rejected [of isHexColor token cfg] by auto
  then have cfg': "cfg' = cfg(''securityToken.code'' \<mapsto> field token ''code'',
         ''securityToken.color'' \<mapsto> field token ''color'',
         ''securityToken.textColor'' \<mapsto> field token ''textcolor'')"
    using assms setSecurityToken_accepted [of isHexColor token cfg] by simp
  from acc have present: "\<not> field_missing token ''code''" "\<not> field_missing token ''color''"
    "\<not> field_missing token ''textcolor''"
    by (simp_all add: token_rejected_def)
  then have defined: "field token ''code'' \<noteq> JUndefined" "field token ''color'' \<noteq> JUndefined"
    "field token ''textcolor'' \<noteq> JUndefined"
    by (auto simp add: field_missing_def field_def split: sum.splits)
  have "getSecurityToken cfg' = Inr (JObj [(''code'', field token ''code''),
      (''color'', field token ''color''), (''textcolor'', field token ''textcolor'')])"
    using defined by (simp add: getSecurityToken_def Config_read_def cfg')
  then show ?thesis
    using present by (simp add: get_prop_field)
qed

theorem set_then_getSecurityToken_witness:
  "\<exists>t. getSecurityToken (Map.empty(''securityToken.code'' \<mapsto> JStr ''ABC'',
                ''securityToken.color'' \<mapsto> JStr ''#ff0000'',
                ''securityToken.textColor'' \<mapsto> JStr ''#ffffff'')) = Inr t
     \<and> get_prop t ''code'' = Inr (JStr ''ABC'')
     \<and> get_prop t ''color'' = Inr (JStr ''#ff0000'')
     \<and> get_prop t ''textcolor'' = Inr (JStr ''#ffffff'')"
proof -
  have "setSecurityToken (\<lambda>v. v = JStr ''#ff0000'' \<or> v = JStr ''#ffffff'') Map.empty
     (JObj [(''code'', JStr ''ABC''), (''color'', JStr ''#ff0000''), (''textcolor'', JStr ''#ffffff'')])
   = (Map.empty(''securityToken.code'' \<mapsto> JStr ''ABC'',
                ''securityToken.color'' \<mapsto> JStr ''#ff0000'',
                ''securityToken.textColor'' \<mapsto> JStr ''#ffffff''), Inr True)"
    by (simp add: setSecurityToken_def validateToken_def Config_write_def)
  from set_then_getSecurityToken [OF this] show ?thesis by simp
qed

section \<open>The master password dialog\<close>

text \<open>
  Claim C7. A completion message with status ERROR and attempt counter \<open>a\<close>: the button
  leaves its processing state and the passphrase field takes the focus; then, below
  three attempts, the label of the passphrase field shows the invalid-passphrase text
  with the error class, and from three attempts on the failure template replaces the
  dialog content instead.
\<close>

theorem masterCompleteHandler_attempts:
  \<open>masterCompleteHandler token ''ERROR'' a =
     [RemoveClass ''#master-password-submit'' ''processing'', Focus ''#js_master_password'']
     @ (if a < 3
        then [SetHtml ''label[for="js_master_password"]'' ''Please enter a valid passphrase.'',
              AddClass ''label[for="js_master_password"]'' ''error'']
        else [LoadTemplate ''.js_dialog_content'' ''./tpl/master/master-password-failure.ejs''])\<close>
  by (simp add: masterCompleteHandler_def)

lemma rememberMasterPassword_default_ttl:
  "\<not> js_truthy time \<Longrightarrow>
   rememberMasterPassword (scope(''masterPassword'' \<mapsto> v)) time =
     ([Request ''passbolt.user.rememberMasterPassword'' [v, JNum 300]], Inr ())"
  by (simp add: rememberMasterPassword_def effect_def)

text \<open>
  Claim C8. The user ticks the remember checkbox and submits: \<open>submitButtonClicked\<close> calls
  \<open>rememberMasterPassword\<close> with no duration. Where nothing binds the identifier
  \<^verbatim>\<open>masterPassword\<close> outside \<open>submitButtonClicked\<close>, the read of it throws a ReferenceError:
  no remember request is sent, with 300 seconds or any other duration, and the
  passphrase is not submitted either.
\<close>

theorem submitButtonClicked_remember_unbound:
  "submitButtonClicked (scope(''masterPassword'' := None)) context_token field_value True =
     ([], Inl (JsReferenceError ''masterPassword is not defined''))"
  by (simp add: submitButtonClicked_def rememberMasterPassword_def throw_def seq_def)

section \<open>The login\<close>


lemma worker_beforeLogin [simp]: "worker (fst (beforeLogin e c)) = worker c"
  by (simp add: beforeLogin_def Let_def)

lemma hook_events_cases:
  "hook_events e c =
     (if isAuthForm (worker c) \<and> Worker_get e False ''Auth'' (Some (tab (worker c))) = None
      then [WorkerEmit ''Auth'' (Some (tab (worker c))) ''passbolt.auth.login-processing''
              [JStr (l10n e ''Logging in'')]]
      else [])"
  by (simp add: hook_events_def beforeLogin_def worker_emit_def Let_def skip_def throw_def
      effect_def split: option.splits)

lemma hook_result_cases:
  "hook_result e c =
     (if isAuthForm (worker c) then Worker_get e False ''Auth'' (Some (tab (worker c))) else None)"
  by (simp add: hook_result_def beforeLogin_def worker_emit_def Let_def skip_def throw_def
      effect_def rejection_def split: option.splits)

lemma beforeLogin_io:
  "snd (beforeLogin e c) =
     (hook_events e c, case hook_result e c of None \<Rightarrow> Inr () | Some err \<Rightarrow> Inl err)"
  by (cases "snd (beforeLogin e c)")
     (auto simp add: hook_events_def hook_result_def rejection_def split: sum.splits)

lemma syncUserSettings_io:
  "syncUserSettings e =
     (SettingsSync # (case settings_sync e of
                        None \<Rightarrow> []
                      | Some err \<Rightarrow> [ConsoleError ''User settings sync failed'',
                                     ConsoleError (message err), SetDefaults]), Inr ())"
  by (simp add: syncUserSettings_def try_catch_def call_def seq_def effect_def
      split: option.splits)

lemma login_steps_hook_fails:
  "hook_result e c = Some err \<Longrightarrow> login_steps e c p r = (hook_events e c, Inl err)"
  by (simp add: login_steps_def beforeLogin_io seq_def)

lemma login_steps_csrf_fails:
  "hook_result e c = None \<Longrightarrow> retrieveAndStoreCsrfToken e = Some err \<Longrightarrow>
   login_steps e c p r = (hook_events e c @ [CsrfFetch], Inl err)"
  by (simp add: login_steps_def beforeLogin_io seq_def call_def)

lemma login_steps_auth_fails:
  "hook_result e c = None \<Longrightarrow> retrieveAndStoreCsrfToken e = None \<Longrightarrow>
   auth_login e p = Some err \<Longrightarrow>
   login_steps e c p r = (hook_events e c @ [CsrfFetch, AuthLogin p], Inl err)"
  by (simp add: login_steps_def beforeLogin_io seq_def call_def)

lemma login_steps_mfa_fails:
  "hook_result e c = None \<Longrightarrow> retrieveAndStoreCsrfToken e = None \<Longrightarrow>
   auth_login e p = None \<Longrightarrow> pageMod (worker c) = None \<Longrightarrow> isLoggedIn e = Some err \<Longrightarrow>
   login_steps e c p r = (hook_events e c @ [CsrfFetch, AuthLogin p, MfaCheck], Inl err)"
  by (simp add: login_steps_def beforeLogin_io seq_def call_def checkMfaAuthentication_def)

lemma login_steps_pass:
  "hook_result e c = None \<Longrightarrow> retrieveAndStoreCsrfToken e = None \<Longrightarrow>
   auth_login e p = None \<Longrightarrow> pageMod (worker c) = None \<longrightarrow> isLoggedIn e = None \<Longrightarrow>
   login_steps e c p r =
     (hook_events e c @ [CsrfFetch, AuthLogin p] @ mfa_events c @ sync_events e
        @ store_events p r, Inr ())"
  by (simp add: login_steps_def beforeLogin_io seq_def call_def checkMfaAuthentication_def
      mfa_events_def sync_events_def store_events_def syncUserSettings_io skip_def effect_def)

lemma tabId_beforeLogin:
  "isAuthForm (worker c) \<Longrightarrow> tabId (fst (beforeLogin e c)) = Some (tab (worker c))"
  by (simp add: beforeLogin_def Let_def)

lemma requestId_beforeLogin [simp]: "requestId (fst (beforeLogin e c)) = requestId c"
  by (simp add: beforeLogin_def Let_def)

lemma handleLoginError_io:
  "handleLoginError e c err =
     (if isAuthForm (worker c) then
        (case Worker_get e True ''Auth'' (tabId c) of
           Some x \<Rightarrow> ([], Inl x)
         | None \<Rightarrow> ([WorkerEmit ''Auth'' (tabId c) ''passbolt.auth.login-failed''
                        [JStr (message err)]], Inr ()))
      else ([PortEmit (requestId c) [JStr ''ERROR'', getEmitableError e err]], Inr ()))"
  by (simp add: handleLoginError_def worker_emit_def throw_def effect_def split: option.splits)

lemma handleLoginSuccess_io:
  "handleLoginSuccess e c rd =
     (case PassboltApp_init e of
        Some x \<Rightarrow> ([AppInit], Inl x)
      | None \<Rightarrow>
        (if isAuthForm (worker c) then
           (case URL_href e (if redirect_replaced rd then domain_string (trustedDomain e)
                             else domain_string (trustedDomain e) @ string_of rd) of
              Inl x \<Rightarrow> ([AppInit], Inl x)
            | Inr href \<Rightarrow>
              (case Worker_get e True ''Auth'' (tabId c) of
                 Some x \<Rightarrow> ([AppInit], Inl x)
               | None \<Rightarrow> ([AppInit, WorkerEmit ''Auth'' (tabId c) ''passbolt.auth.login-success''
                              [JStr (l10n e ''You are now logged in!''), JStr href]], Inr ())))
         else ([AppInit, PortEmit (requestId c) [JStr ''SUCCESS'']], Inr ())))"
  by (simp add: handleLoginSuccess_def worker_emit_def throw_def effect_def call_def seq_def
      Let_def split: option.splits sum.splits)

lemma login_of_failed_steps:
  "login_steps e c p r = (es, Inl err) \<Longrightarrow>
   login e c p r rd =
     \<lparr>events = es @ fst (handleLoginError e (fst (beforeLogin e c)) err),
      login_rejected = rejection (snd (handleLoginError e (fst (beforeLogin e c)) err)),
      success_handler_rejected = None\<rparr>"
  by (simp add: login_def Let_def)

lemma login_of_passed_steps:
  "login_steps e c p r = (es, Inr u) \<Longrightarrow>
   login e c p r rd =
     \<lparr>events = es @ fst (handleLoginSuccess e (fst (beforeLogin e c)) rd),
      login_rejected = None,
      success_handler_rejected = rejection (snd (handleLoginSuccess e (fst (beforeLogin e c)) rd))\<rparr>"
  by (simp add: login_def Let_def)

lemma login_cases [case_names hook csrf auth mfa pass]:
  obtains
    (hook) err where "hook_result e c = Some err"
      "login_steps e c p r = (hook_events e c, Inl err)"
  | (csrf) err where "hook_result e c = None" "retrieveAndStoreCsrfToken e = Some err"
      "login_steps e c p r = (hook_events e c @ [CsrfFetch], Inl err)"
  | (auth) err where "hook_result e c = None" "retrieveAndStoreCsrfToken e = None"
      "auth_login e p = Some err"
      "login_steps e c p r = (hook_events e c @ [CsrfFetch, AuthLogin p], Inl err)"
  | (mfa) err where "hook_result e c = None" "retrieveAndStoreCsrfToken e = None"
      "auth_login e p = None" "pageMod (worker c) = None" "isLoggedIn e = Some err"
      "login_steps e c p r = (hook_events e c @ [CsrfFetch, AuthLogin p, MfaCheck], Inl err)"
  | (pass) "hook_result e c = None" "retrieveAndStoreCsrfToken e = None"
      "auth_login e p = None" "pageMod (worker c) = None \<longrightarrow> isLoggedIn e = None"
      "login_steps e c p r =
         (hook_events e c @ [CsrfFetch, AuthLogin p] @ mfa_events c @ sync_events e
            @ store_events p r, Inr ())"
proof (cases "hook_result e c")
  case (Some err)
  then show ?thesis using hook login_steps_hook_fails by blast
next
  case h: None
  show ?thesis
  proof (cases "retrieveAndStoreCsrfToken e")
    case (Some err)
    then show ?thesis using h csrf login_steps_csrf_fails by blast
  next
    case t: None
    show ?thesis
    proof (cases "auth_login e p")
      case (Some err)
      then show ?thesis using h t auth login_steps_auth_fails by blast
    next
      case a: None
      show ?thesis
      proof (cases "pageMod (worker c) = None \<longrightarrow> isLoggedIn e = None")
        case m: True
        show ?thesis
          by (rule pass [OF h t a m login_steps_pass [OF h t a m]])
      next
        case False
        then obtain err where "pageMod (worker c) = None" "isLoggedIn e = Some err" by auto
        then show ?thesis using h t a mfa login_steps_mfa_fails by blast
      qed
    qed
  qed
qed

lemma steps_of_hook [simp]: "filter is_step (hook_events e c) = []"
  by (simp add: hook_events_cases)

lemma steps_of_error_handler [simp]: "filter is_step (fst (handleLoginError e c err)) = []"
  by (simp add: handleLoginError_io split: option.splits)

lemma steps_of_success_handler [simp]: "filter is_step (fst (handleLoginSuccess e c rd)) = []"
  by (simp add: handleLoginSuccess_io split: option.splits sum.splits)

lemma steps_of_sync [simp]: "filter is_step (sync_events e) = [SettingsSync]"
  by (simp add: sync_events_def syncUserSettings_io split: option.splits)

lemma steps_of_store [simp]: "filter is_step (store_events p r) = []"
  by (simp add: store_events_def)

lemma steps_of_mfa [simp]: "filter is_step (mfa_events c) = mfa_events c"
  by (simp add: mfa_events_def)

lemma in_set_filter_step: "is_step ev \<Longrightarrow> ev \<in> set es \<longleftrightarrow> ev \<in> set (filter is_step es)"
  by simp

lemma login_failed_run:
  "login_steps e c p r = (es, Inl err) \<Longrightarrow> login e c p r rd = failure_run e c es err"
  by (simp add: login_def failure_run_def Let_def)

lemma login_passed_run:
  "login_steps e c p r = (es, Inr u) \<Longrightarrow> login e c p r rd = success_run e c es rd"
  by (simp add: login_def success_run_def Let_def)

lemma steps_of_failure_run [simp]:
  "filter is_step (events (failure_run e c es err)) = filter is_step es"
  by (simp add: failure_run_def Let_def)

lemma steps_of_success_run [simp]:
  "filter is_step (events (success_run e c es rd)) = filter is_step es"
  by (simp add: success_run_def Let_def)

lemma steps_trace:
  "filter is_step (events (login e c p r rd)) =
    (case hook_result e c of
       Some x \<Rightarrow> []
     | None \<Rightarrow> CsrfFetch #
        (case retrieveAndStoreCsrfToken e of
           Some x \<Rightarrow> []
         | None \<Rightarrow> AuthLogin p #
            (case auth_login e p of
               Some x \<Rightarrow> []
             | None \<Rightarrow>
                if pageMod (worker c) = None
                then MfaCheck # (case isLoggedIn e of Some x \<Rightarrow> [] | None \<Rightarrow> [SettingsSync])
                else [SettingsSync])))"
proof (cases rule: login_cases [of e c p r])
  case (hook err)
  then show ?thesis by (simp add: login_failed_run)
next
  case (csrf err)
  then show ?thesis by (simp add: login_failed_run)
next
  case (auth err)
  then show ?thesis by (simp add: login_failed_run)
next
  case (mfa err)
  then show ?thesis by (simp add: login_failed_run)
next
  case pass
  then show ?thesis by (auto simp add: login_passed_run mfa_events_def)
qed

lemma step_in_trace:
  "is_step ev \<Longrightarrow> ev \<in> set (events L) \<longleftrightarrow> ev \<in> set (filter is_step (events L))"
  by simp

lemma csrf_reached:
  "CsrfFetch \<in> set (events (login e c p r rd)) \<longleftrightarrow> hook_result e c = None"
  by (auto simp add: step_in_trace steps_trace split: option.splits)

lemma auth_reached:
  "AuthLogin p \<in> set (events (login e c p r rd)) \<longleftrightarrow>
     hook_result e c = None \<and> retrieveAndStoreCsrfToken e = None"
  by (auto simp add: step_in_trace steps_trace split: option.splits)

lemma mfa_reached:
  "MfaCheck \<in> set (events (login e c p r rd)) \<longleftrightarrow>
     hook_result e c = None \<and> retrieveAndStoreCsrfToken e = None \<and> auth_login e p = None
     \<and> pageMod (worker c) = None"
  by (auto simp add: step_in_trace steps_trace split: option.splits)



lemmas run_defs =
  login_def login_steps_def beforeLogin_def checkMfaAuthentication_def syncUserSettings_def
  handleLoginSuccess_def handleLoginError_def worker_emit_def isAuthForm_def
  seq_def call_def effect_def skip_def throw_def try_catch_def rejection_def
  failure_run_def success_run_def hook_events_def hook_result_def mfa_events_def
  sync_events_def store_events_def redirect_replaced_def charAt0_def domain_string_def
  redirect_target_def routed_outcome_def
  example_env_def quickaccess_controller_def authform_controller_def app_controller_def Let_def




lemma sync_events_cases:
  "sync_events e =
     SettingsSync # (case settings_sync e of
                       None \<Rightarrow> []
                     | Some err \<Rightarrow> [ConsoleError ''User settings sync failed'',
                                    ConsoleError (message err), SetDefaults])"
  by (simp add: sync_events_def syncUserSettings_io)



lemma store_of_hook [simp]: "filter is_store (hook_events e c) = []"
  by (simp add: hook_events_cases)

lemma store_of_error_handler [simp]: "filter is_store (fst (handleLoginError e c err)) = []"
  by (simp add: handleLoginError_io split: option.splits)

lemma store_of_success_handler [simp]: "filter is_store (fst (handleLoginSuccess e c rd)) = []"
  by (simp add: handleLoginSuccess_io split: option.splits sum.splits)

lemma store_of_sync [simp]: "filter is_store (sync_events e) = []"
  by (simp add: sync_events_cases split: option.splits)

lemma store_of_mfa [simp]: "filter is_store (mfa_events c) = []"
  by (simp add: mfa_events_def)

lemma store_of_store [simp]: "filter is_store (store_events p r) = store_events p r"
  by (simp add: store_events_def)

lemma store_of_failure_run [simp]:
  "filter is_store (events (failure_run e c es err)) = filter is_store es"
  by (simp add: failure_run_def Let_def)

lemma store_of_success_run [simp]:
  "filter is_store (events (success_run e c es rd)) = filter is_store es"
  by (simp add: success_run_def Let_def)





text \<open>
  Claim C4, as the code has it. Once the crypto login is made and returns, the MFA
  check \<^verbatim>\<open>user.isLoggedIn()\<close> is made exactly when the originating worker has no pageMod
  (the quick access worker); for a worker with a pageMod, the login-form worker among
  them, it is skipped.
\<close>

theorem mfa_check_iff_no_pageMod:
  fixes e c p r rd
  defines "L \<equiv> login e c p r rd"
  shows "(MfaCheck \<in> set (events L) \<longleftrightarrow>
            pageMod (worker c) = None \<and> AuthLogin p \<in> set (events L) \<and> auth_login e p = None)
    \<and> (isAuthForm (worker c) \<longrightarrow> MfaCheck \<notin> set (events L))"
  unfolding L_def by (auto simp add: mfa_reached auth_reached isAuthForm_def)

theorem mfa_check_iff_no_pageMod_witness:
  "MfaCheck \<in> set (events (login example_env quickaccess_controller ''secret'' (JBool False)
      JUndefined))
   \<and> MfaCheck \<notin> set (events (login example_env authform_controller ''secret'' (JBool False)
      JUndefined))"
proof -
  have a: "pageMod (worker quickaccess_controller) = None
     \<and> AuthLogin ''secret'' \<in> set (events (login example_env quickaccess_controller ''secret''
          (JBool False) JUndefined))
     \<and> auth_login example_env ''secret'' = None"
    by (simp add: run_defs)
  have b: "isAuthForm (worker authform_controller)"
    by (simp add: run_defs)
  from a mfa_check_iff_no_pageMod [where e=example_env and c=quickaccess_controller
      and p="''secret''" and r="JBool False" and rd=JUndefined]
  have r1: "MfaCheck \<in> set (events (login example_env quickaccess_controller ''secret''
      (JBool False) JUndefined))"
    by blast
  from b mfa_check_iff_no_pageMod [where e=example_env and c=authform_controller
      and p="''secret''" and r="JBool False" and rd=JUndefined]
  have r2: "MfaCheck \<notin> set (events (login example_env authform_controller ''secret''
      (JBool False) JUndefined))"
    by blast
  from r1 r2 show ?thesis by simp
qed

text \<open>
  Claim C4 as stated fails: a worker with a pageMod other than the login form is not
  the login-form worker, and its login passes the crypto login without an MFA check.
\<close>

theorem mfa_check_skipped_for_other_pageMod:
  "\<not> (\<not> isAuthForm (worker app_controller)
       \<and> AuthLogin ''secret'' \<in> set (events (login example_env app_controller ''secret''
            (JBool False) JUndefined))
       \<and> auth_login example_env ''secret'' = None
      \<longrightarrow> MfaCheck \<in> set (events (login example_env app_controller ''secret''
            (JBool False) JUndefined)))"
  by (simp add: run_defs)

lemma redirect_replaced_iff: "redirect_replaced rd \<longleftrightarrow> \<not> redirect_rooted rd"
proof (cases rd)
  case (JStr s)
  then show ?thesis by (cases s) (auto simp add: redirect_replaced_def charAt0_def)
next
  case (JStrObj s)
  then show ?thesis by (cases s) (auto simp add: redirect_replaced_def charAt0_def)
qed (simp_all add: redirect_replaced_def)

lemma handleLoginSuccess_target:
  "(if redirect_replaced rd then domain_string (trustedDomain e)
    else domain_string (trustedDomain e) @ string_of rd) = redirect_target e rd"
  by (simp add: redirect_target_def redirect_replaced_iff)

lemma handleLoginSuccess_routed:
  "handleLoginSuccess e c rd =
     (case PassboltApp_init e of
        Some x \<Rightarrow> ([AppInit], Inl x)
      | None \<Rightarrow>
        (if isAuthForm (worker c) then
           (case URL_href e (redirect_target e rd) of
              Inl x \<Rightarrow> ([AppInit], Inl x)
            | Inr href \<Rightarrow>
              (case Worker_get e True ''Auth'' (tabId c) of
                 Some x \<Rightarrow> ([AppInit], Inl x)
               | None \<Rightarrow> ([AppInit, WorkerEmit ''Auth'' (tabId c) ''passbolt.auth.login-success''
                              [JStr (l10n e ''You are now logged in!''), JStr href]], Inr ())))
         else ([AppInit, PortEmit (requestId c) [JStr ''SUCCESS'']], Inr ())))"
  by (simp only: handleLoginSuccess_io handleLoginSuccess_target)

lemma success_emit_of_handler:
  assumes "isAuthForm (worker c)"
    and "WorkerEmit name t ''passbolt.auth.login-success'' args
           \<in> set (fst (handleLoginSuccess e c rd))"
  shows "name = ''Auth'' \<and> t = tabId c
    \<and> (\<exists>href. args = [JStr (l10n e ''You are now logged in!''), JStr href]
          \<and> URL_href e (redirect_target e rd) = Inr href)"
  using assms
  by (auto simp add: handleLoginSuccess_io handleLoginSuccess_target
      split: option.splits sum.splits)

lemma no_success_emit_in_error_handler:
  "WorkerEmit name t ''passbolt.auth.login-success'' args
     \<notin> set (fst (handleLoginError e c err))"
  by (auto simp add: handleLoginError_io split: option.splits if_splits)

lemma no_success_emit_in_hook:
  "WorkerEmit name t ''passbolt.auth.login-success'' args \<notin> set (hook_events e c)"
  by (auto simp add: hook_events_cases split: if_splits)

lemma success_emit_in_run:
  assumes "WorkerEmit name t ''passbolt.auth.login-success'' args
             \<in> set (events (login e c p r rd))"
  shows "WorkerEmit name t ''passbolt.auth.login-success'' args
           \<in> set (fst (handleLoginSuccess e (fst (beforeLogin e c)) rd))"
proof (cases rule: login_cases [of e c p r])
  case (hook err)
  with assms show ?thesis
    by (auto simp add: login_failed_run failure_run_def Let_def no_success_emit_in_hook
        no_success_emit_in_error_handler)
next
  case (csrf err)
  with assms show ?thesis
    by (auto simp add: login_failed_run failure_run_def Let_def no_success_emit_in_hook
        no_success_emit_in_error_handler)
next
  case (auth err)
  with assms show ?thesis
    by (auto simp add: login_failed_run failure_run_def Let_def no_success_emit_in_hook
        no_success_emit_in_error_handler)
next
  case (mfa err)
  with assms show ?thesis
    by (auto simp add: login_failed_run failure_run_def Let_def no_success_emit_in_hook
        no_success_emit_in_error_handler)
next
  case pass
  with assms show ?thesis
    by (auto simp add: login_passed_run success_run_def Let_def no_success_emit_in_hook
        mfa_events_def sync_events_cases store_events_def split: if_splits option.splits)
qed

text \<open>
  Claim C5. A login from the login-form worker: every success event of the run goes
  to the Auth worker of the worker's tab and carries the message and the href of a URL;
  that URL is built from the trusted domain alone when the redirect is missing, is not
  a string or does not start with a slash, and from the trusted domain followed by the
  redirect otherwise. And when the steps pass, the application initialises, the URL
  parses and the Auth worker is found, that success event is sent.
\<close>

theorem login_success_redirect_url:
  fixes e c p r rd
  defines "L \<equiv> login e c p r rd"
  assumes "isAuthForm (worker c)"
  shows "(WorkerEmit name t ''passbolt.auth.login-success'' args \<in> set (events L) \<longrightarrow>
            name = ''Auth'' \<and> t = Some (tab (worker c))
            \<and> (\<exists>href. args = [JStr (l10n e ''You are now logged in!''), JStr href]
                  \<and> URL_href e (if redirect_rooted rd
                                 then domain_string (trustedDomain e) @ string_of rd
                                 else domain_string (trustedDomain e)) = Inr href))
    \<and> (CsrfFetch \<in> set (events L) \<and> retrieveAndStoreCsrfToken e = None
          \<and> auth_login e p = None \<and> PassboltApp_init e = None
          \<and> URL_href e (if redirect_rooted rd
                         then domain_string (trustedDomain e) @ string_of rd
                         else domain_string (trustedDomain e)) = Inr url
          \<and> Worker_get e True ''Auth'' (Some (tab (worker c))) = None \<longrightarrow>
        WorkerEmit ''Auth'' (Some (tab (worker c))) ''passbolt.auth.login-success''
          [JStr (l10n e ''You are now logged in!''), JStr url] \<in> set (events L))"
proof (intro conjI impI)
  assume "WorkerEmit name t ''passbolt.auth.login-success'' args \<in> set (events L)"
  then have "WorkerEmit name t ''passbolt.auth.login-success'' args
           \<in> set (fst (handleLoginSuccess e (fst (beforeLogin e c)) rd))"
    unfolding L_def by (rule success_emit_in_run)
  with assms(2) have "name = ''Auth'' \<and> t = tabId (fst (beforeLogin e c))
    \<and> (\<exists>href. args = [JStr (l10n e ''You are now logged in!''), JStr href]
          \<and> URL_href e (redirect_target e rd) = Inr href)"
    by (intro success_emit_of_handler) simp_all
  then show "name = ''Auth''" and "t = Some (tab (worker c))"
    and "\<exists>href. args = [JStr (l10n e ''You are now logged in!''), JStr href]
                  \<and> URL_href e (if redirect_rooted rd
                                 then domain_string (trustedDomain e) @ string_of rd
                                 else domain_string (trustedDomain e)) = Inr href"
    using assms(2) by (simp_all add: tabId_beforeLogin redirect_target_def)
next
  assume a: "CsrfFetch \<in> set (events L) \<and> retrieveAndStoreCsrfToken e = None
          \<and> auth_login e p = None \<and> PassboltApp_init e = None
          \<and> URL_href e (if redirect_rooted rd
                         then domain_string (trustedDomain e) @ string_of rd
                         else domain_string (trustedDomain e)) = Inr url
          \<and> Worker_get e True ''Auth'' (Some (tab (worker c))) = None"
  then have h: "hook_result e c = None"
    by (simp add: L_def csrf_reached)
  have m: "pageMod (worker c) = None \<longrightarrow> isLoggedIn e = None"
    using assms(2) by (simp add: isAuthForm_def)
  from a have t: "retrieveAndStoreCsrfToken e = None" and u: "auth_login e p = None"
    by simp_all
  have run: "L = success_run e c (hook_events e c @ [CsrfFetch, AuthLogin p] @ mfa_events c
      @ sync_events e @ store_events p r) rd"
    unfolding L_def by (rule login_passed_run [OF login_steps_pass [OF h t u m]])
  have "handleLoginSuccess e (fst (beforeLogin e c)) rd =
      ([AppInit, WorkerEmit ''Auth'' (Some (tab (worker c))) ''passbolt.auth.login-success''
          [JStr (l10n e ''You are now logged in!''), JStr url]], Inr ())"
    using a assms(2)
    by (simp add: handleLoginSuccess_io handleLoginSuccess_target redirect_target_def
        tabId_beforeLogin)
  then show "WorkerEmit ''Auth'' (Some (tab (worker c))) ''passbolt.auth.login-success''
          [JStr (l10n e ''You are now logged in!''), JStr url] \<in> set (events L)"
    unfolding run by (simp add: success_run_def Let_def)
qed

theorem login_success_redirect_url_witness:
  "WorkerEmit ''Auth'' (Some 7) ''passbolt.auth.login-success''
      [JStr ''You are now logged in!'', JStr ''https://example.org/foo'']
     \<in> set (events (login example_env authform_controller ''secret'' (JBool False)
          (JStr ''/foo'')))
   \<and> WorkerEmit ''Auth'' (Some 7) ''passbolt.auth.login-success''
      [JStr ''You are now logged in!'', JStr ''https://example.org/'']
     \<in> set (events (login example_env authform_controller ''secret'' (JBool False) JUndefined))
   \<and> WorkerEmit ''Auth'' (Some 7) ''passbolt.auth.login-success''
      [JStr ''You are now logged in!'', JStr ''https://example.org/'']
     \<in> set (events (login example_env authform_controller ''secret'' (JBool False)
          (JStr ''foo'')))"
proof -
  let ?c = authform_controller
  have b: "isAuthForm (worker ?c)" by (simp add: run_defs)
  have h1: "CsrfFetch \<in> set (events (login example_env ?c ''secret'' (JBool False) (JStr ''/foo'')))
      \<and> retrieveAndStoreCsrfToken example_env = None \<and> auth_login example_env ''secret'' = None
      \<and> PassboltApp_init example_env = None
      \<and> URL_href example_env (if redirect_rooted (JStr ''/foo'')
            then domain_string (trustedDomain example_env) @ string_of (JStr ''/foo'')
            else domain_string (trustedDomain example_env)) = Inr ''https://example.org/foo''
      \<and> Worker_get example_env True ''Auth'' (Some (tab (worker ?c))) = None"
    by (simp add: run_defs)
  have h2: "CsrfFetch \<in> set (events (login example_env ?c ''secret'' (JBool False) JUndefined))
      \<and> retrieveAndStoreCsrfToken example_env = None \<and> auth_login example_env ''secret'' = None
      \<and> PassboltApp_init example_env = None
      \<and> URL_href example_env (if redirect_rooted JUndefined
            then domain_string (trustedDomain example_env) @ string_of JUndefined
            else domain_string (trustedDomain example_env)) = Inr ''https://example.org/''
      \<and> Worker_get example_env True ''Auth'' (Some (tab (worker ?c))) = None"
    by (simp add: run_defs)
  have h3: "CsrfFetch \<in> set (events (login example_env ?c ''secret'' (JBool False) (JStr ''foo'')))
      \<and> retrieveAndStoreCsrfToken example_env = None \<and> auth_login example_env ''secret'' = None
      \<and> PassboltApp_init example_env = None
      \<and> URL_href example_env (if redirect_rooted (JStr ''foo'')
            then domain_string (trustedDomain example_env) @ string_of (JStr ''foo'')
            else domain_string (trustedDomain example_env)) = Inr ''https://example.org/''
      \<and> Worker_get example_env True ''Auth'' (Some (tab (worker ?c))) = None"
    by (simp add: run_defs)
  have t: "tab (worker ?c) = 7" "l10n example_env ''You are now logged in!'' = ''You are now logged in!''"
    by (simp_all add: run_defs)
  from h1 login_success_redirect_url [OF b, where e=example_env and p="''secret''"
      and r="JBool False" and rd="JStr ''/foo''" and url="''https://example.org/foo''"]
  have r1: "WorkerEmit ''Auth'' (Some (tab (worker ?c))) ''passbolt.auth.login-success''
      [JStr (l10n example_env ''You are now logged in!''), JStr ''https://example.org/foo'']
     \<in> set (events (login example_env ?c ''secret'' (JBool False) (JStr ''/foo'')))"
    by blast
  from h2 login_success_redirect_url [OF b, where e=example_env and p="''secret''"
      and r="JBool False" and rd=JUndefined and url="''https://example.org/''"]
  have r2: "WorkerEmit ''Auth'' (Some (tab (worker ?c))) ''passbolt.auth.login-success''
      [JStr (l10n example_env ''You are now logged in!''), JStr ''https://example.org/'']
     \<in> set (events (login example_env ?c ''secret'' (JBool False) JUndefined))"
    by blast
  from h3 login_success_redirect_url [OF b, where e=example_env and p="''secret''"
      and r="JBool False" and rd="JStr ''foo''" and url="''https://example.org/''"]
  have r3: "WorkerEmit ''Auth'' (Some (tab (worker ?c))) ''passbolt.auth.login-success''
      [JStr (l10n example_env ''You are now logged in!''), JStr ''https://example.org/'']
     \<in> set (events (login example_env ?c ''secret'' (JBool False) (JStr ''foo'')))"
    by blast
  from r1 r2 r3 show ?thesis unfolding t by simp
qed

lemma messages_of_hook [simp]: "filter is_message (hook_events e c) = hook_events e c"
  by (simp add: hook_events_cases)

lemma messages_of_sync [simp]: "filter is_message (sync_events e) = []"
  by (simp add: sync_events_cases split: option.splits)

lemma messages_of_mfa [simp]: "filter is_message (mfa_events c) = []"
  by (simp add: mfa_events_def)

lemma messages_of_store [simp]: "filter is_message (store_events p r) = []"
  by (simp add: store_events_def)

lemma failure_run_completed:
  assumes "login_rejected (failure_run e c es err) = None"
  shows "filter is_message (events (failure_run e c es err))
           = filter is_message es @ [routed_outcome e c (Inl err)]"
proof (cases "isAuthForm (worker c)")
  case True
  with assms show ?thesis
    by (simp add: failure_run_def Let_def handleLoginError_io routed_outcome_def
        rejection_def tabId_beforeLogin split: option.splits)
next
  case False
  then show ?thesis
    by (simp add: failure_run_def Let_def handleLoginError_io routed_outcome_def)
qed

lemma success_run_completed:
  assumes "success_handler_rejected (success_run e c es rd) = None"
  shows "\<exists>href. filter is_message (events (success_run e c es rd))
                  = filter is_message es @ [routed_outcome e c (Inr href)]
           \<and> (isAuthForm (worker c) \<longrightarrow> URL_href e (redirect_target e rd) = Inr href)"
proof (cases "isAuthForm (worker c)")
  case True
  with assms show ?thesis
    by (auto simp add: success_run_def Let_def handleLoginSuccess_routed
        routed_outcome_def rejection_def tabId_beforeLogin split: option.splits sum.splits)
next
  case False
  with assms show ?thesis
    by (auto simp add: success_run_def Let_def handleLoginSuccess_routed routed_outcome_def
        rejection_def split: option.splits)
qed

text \<open>
  Claim C6. A login that completes (neither the promise of \<open>login\<close> nor that of the
  success handler is rejected) sends, after the processing signal of the before-login
  hook, exactly one message, the outcome. From the login-form worker it goes to the
  Auth worker of the recorded tab: on the success channel with the message and the
  redirect URL, or on the failure channel with the message of the error. From any
  other worker it goes to the worker's own port under the request id: SUCCESS, or ERROR
  with the emitable form of the error. It is the failure outcome exactly when the
  steps threw, with the error they threw.
\<close>

theorem outcome_routing:
  fixes e c p r rd
  defines "L \<equiv> login e c p r rd"
  assumes "login_rejected L = None" and "success_handler_rejected L = None"
  shows "\<exists>result. filter is_message (events L) = hook_events e c @ [routed_outcome e c result]
    \<and> (case result of
          Inl err \<Rightarrow> snd (login_steps e c p r) = Inl err
        | Inr href \<Rightarrow> snd (login_steps e c p r) = Inr ()
            \<and> (isAuthForm (worker c) \<longrightarrow> URL_href e (redirect_target e rd) = Inr href))"
proof (cases rule: login_cases [of e c p r])
  case (hook err)
  then have run: "L = failure_run e c (hook_events e c) err"
    by (simp add: L_def login_failed_run)
  with assms(2) have "filter is_message (events L)
      = filter is_message (hook_events e c) @ [routed_outcome e c (Inl err)]"
    by (simp add: failure_run_completed)
  with hook show ?thesis by (intro exI [of _ "Inl err"]) simp
next
  case (csrf err)
  then have run: "L = failure_run e c (hook_events e c @ [CsrfFetch]) err"
    by (simp add: L_def login_failed_run)
  with assms(2) have "filter is_message (events L)
      = filter is_message (hook_events e c @ [CsrfFetch]) @ [routed_outcome e c (Inl err)]"
    by (simp only: failure_run_completed)
  with csrf show ?thesis by (intro exI [of _ "Inl err"]) simp
next
  case (auth err)
  then have run: "L = failure_run e c (hook_events e c @ [CsrfFetch, AuthLogin p]) err"
    by (simp add: L_def login_failed_run)
  with assms(2) have "filter is_message (events L)
      = filter is_message (hook_events e c @ [CsrfFetch, AuthLogin p])
          @ [routed_outcome e c (Inl err)]"
    by (simp only: failure_run_completed)
  with auth show ?thesis by (intro exI [of _ "Inl err"]) simp
next
  case (mfa err)
  then have run: "L = failure_run e c (hook_events e c @ [CsrfFetch, AuthLogin p, MfaCheck]) err"
    by (simp add: L_def login_failed_run)
  with assms(2) have "filter is_message (events L)
      = filter is_message (hook_events e c @ [CsrfFetch, AuthLogin p, MfaCheck])
          @ [routed_outcome e c (Inl err)]"
    by (simp only: failure_run_completed)
  with mfa show ?thesis by (intro exI [of _ "Inl err"]) simp
next
  case pass
  let ?es = "hook_events e c @ [CsrfFetch, AuthLogin p] @ mfa_events c @ sync_events e
         @ store_events p r"
  from pass have run: "L = success_run e c ?es rd"
    by (simp add: L_def login_passed_run)
  with assms(3) obtain href where
    "filter is_message (events L) = filter is_message ?es @ [routed_outcome e c (Inr href)]"
    and "isAuthForm (worker c) \<longrightarrow> URL_href e (redirect_target e rd) = Inr href"
    using success_run_completed [of e c ?es rd] by auto
  with pass show ?thesis by (intro exI [of _ "Inr href"]) simp
qed

theorem outcome_routing_witness:
  "filter is_message (events (login example_env authform_controller ''secret'' (JBool False)
       (JStr ''/foo'')))
     = [WorkerEmit ''Auth'' (Some 7) ''passbolt.auth.login-processing'' [JStr ''Logging in''],
        WorkerEmit ''Auth'' (Some 7) ''passbolt.auth.login-success''
          [JStr ''You are now logged in!'', JStr ''https://example.org/foo'']]
   \<and> filter is_message (events (login example_env authform_controller ''guess'' (JBool False)
       (JStr ''/foo'')))
     = [WorkerEmit ''Auth'' (Some 7) ''passbolt.auth.login-processing'' [JStr ''Logging in''],
        WorkerEmit ''Auth'' (Some 7) ''passbolt.auth.login-failed'' [JStr ''wrong passphrase'']]
   \<and> filter is_message (events (login example_env quickaccess_controller ''secret''
       (JBool False) JUndefined))
     = [PortEmit ''req-1'' [JStr ''SUCCESS'']]
   \<and> filter is_message (events (login example_env quickaccess_controller ''guess''
       (JBool False) JUndefined))
     = [PortEmit ''req-1'' [JStr ''ERROR'', JObj [(''message'', JStr ''wrong passphrase'')]]]"
proof -
  let ?a = authform_controller and ?q = quickaccess_controller
  have a1: "login_rejected (login example_env ?a ''secret'' (JBool False) (JStr ''/foo'')) = None"
    and a2: "success_handler_rejected (login example_env ?a ''secret'' (JBool False)
       (JStr ''/foo'')) = None"
    and b1: "login_rejected (login example_env ?a ''guess'' (JBool False) (JStr ''/foo'')) = None"
    and b2: "success_handler_rejected (login example_env ?a ''guess'' (JBool False)
       (JStr ''/foo'')) = None"
    and c1: "login_rejected (login example_env ?q ''secret'' (JBool False) JUndefined) = None"
    and c2: "success_handler_rejected (login example_env ?q ''secret'' (JBool False)
       JUndefined) = None"
    and d1: "login_rejected (login example_env ?q ''guess'' (JBool False) JUndefined) = None"
    and d2: "success_handler_rejected (login example_env ?q ''guess'' (JBool False)
       JUndefined) = None"
    by (simp_all add: run_defs)
  have sa: "snd (login_steps example_env ?a ''secret'' (JBool False)) = Inr ()"
    and sb: "snd (login_steps example_env ?a ''guess'' (JBool False))
       = Inl (JsError ''wrong passphrase'')"
    and sc: "snd (login_steps example_env ?q ''secret'' (JBool False)) = Inr ()"
    and sd: "snd (login_steps example_env ?q ''guess'' (JBool False))
       = Inl (JsError ''wrong passphrase'')"
    by (simp_all add: run_defs)
  have ua: "URL_href example_env (redirect_target example_env (JStr ''/foo''))
       = Inr ''https://example.org/foo''"
    by (simp add: run_defs)
  have fa: "isAuthForm (worker ?a)" by (simp add: run_defs)
  from outcome_routing [OF a1 a2] obtain res where
    f: "filter is_message (events (login example_env ?a ''secret'' (JBool False)
       (JStr ''/foo''))) = hook_events example_env ?a @ [routed_outcome example_env ?a res]"
    and g: "case res of
          Inl err \<Rightarrow> snd (login_steps example_env ?a ''secret'' (JBool False)) = Inl err
        | Inr href \<Rightarrow> snd (login_steps example_env ?a ''secret'' (JBool False)) = Inr ()
            \<and> (isAuthForm (worker ?a) \<longrightarrow>
                 URL_href example_env (redirect_target example_env (JStr ''/foo'')) = Inr href)"
    by blast
  have "res = Inr ''https://example.org/foo''"
    using g sa ua fa by (cases res) simp_all
  with f have ra: "filter is_message (events (login example_env ?a ''secret'' (JBool False)
       (JStr ''/foo'')))
     = hook_events example_env ?a @ [routed_outcome example_env ?a (Inr ''https://example.org/foo'')]"
    by simp
  from outcome_routing [OF b1 b2] obtain res where
    f: "filter is_message (events (login example_env ?a ''guess'' (JBool False)
       (JStr ''/foo''))) = hook_events example_env ?a @ [routed_outcome example_env ?a res]"
    and g: "case res of
          Inl err \<Rightarrow> snd (login_steps example_env ?a ''guess'' (JBool False)) = Inl err
        | Inr href \<Rightarrow> snd (login_steps example_env ?a ''guess'' (JBool False)) = Inr ()
            \<and> (isAuthForm (worker ?a) \<longrightarrow>
                 URL_href example_env (redirect_target example_env (JStr ''/foo'')) = Inr href)"
    by blast
  have "res = Inl (JsError ''wrong passphrase'')"
    using g sb by (cases res) simp_all
  with f have rb: "filter is_message (events (login example_env ?a ''guess'' (JBool False)
       (JStr ''/foo'')))
     = hook_events example_env ?a
         @ [routed_outcome example_env ?a (Inl (JsError ''wrong passphrase''))]"
    by simp
  from outcome_routing [OF c1 c2] obtain res where
    f: "filter is_message (events (login example_env ?q ''secret'' (JBool False)
       JUndefined)) = hook_events example_env ?q @ [routed_outcome example_env ?q res]"
    and g: "case res of
          Inl err \<Rightarrow> snd (login_steps example_env ?q ''secret'' (JBool False)) = Inl err
        | Inr href \<Rightarrow> snd (login_steps example_env ?q ''secret'' (JBool False)) = Inr ()
            \<and> (isAuthForm (worker ?q) \<longrightarrow>
                 URL_href example_env (redirect_target example_env JUndefined) = Inr href)"
    by blast
  obtain href where "res = Inr href"
    using g sc by (cases res) simp_all
  with f have rc': "filter is_message (events (login example_env ?q ''secret''
       (JBool False) JUndefined))
     = hook_events example_env ?q @ [routed_outcome example_env ?q (Inr href)]"
    by simp
  from outcome_routing [OF d1 d2] obtain res where
    f: "filter is_message (events (login example_env ?q ''guess'' (JBool False)
       JUndefined)) = hook_events example_env ?q @ [routed_outcome example_env ?q res]"
    and g: "case res of
          Inl err \<Rightarrow> snd (login_steps example_env ?q ''guess'' (JBool False)) = Inl err
        | Inr href \<Rightarrow> snd (login_steps example_env ?q ''guess'' (JBool False)) = Inr ()
            \<and> (isAuthForm (worker ?q) \<longrightarrow>
                 URL_href example_env (redirect_target example_env JUndefined) = Inr href)"
    by blast
  have "res = Inl (JsError ''wrong passphrase'')"
    using g sd by (cases res) simp_all
  with f have rd: "filter is_message (events (login example_env ?q ''guess'' (JBool False)
       JUndefined))
     = hook_events example_env ?q
         @ [routed_outcome example_env ?q (Inl (JsError ''wrong passphrase''))]"
    by simp
  show ?thesis
    unfolding ra rb rc' rd by (simp add: run_defs)
qed

end
